theory Spec2Isabelle
  imports Main
begin

section \<open>JavaScript values used by the analyzer\<close>

text \<open>
  Strings are lists of code units; the model uses the 8-bit \<^typ>\<open>char\<close>, so it covers
  file texts whose code units are below 256. Numbers that can go negative in the source
  (the bounds of the binary search) are \<^typ>\<open>int\<close>; offsets into a text are \<^typ>\<open>nat\<close>.
  A thrown JavaScript value is an \<open>exn\<close>; a function that can throw returns \<open>exn + 'a\<close>
  with \<open>Inl\<close> the thrown value, and a loop that may run forever returns an option,
  \<open>None\<close> meaning that it never returns.
\<close>

datatype exn = Error string | TypeError string | RangeError string

definition isLineTerminator :: "char \<Rightarrow> bool" where
  "isLineTerminator c = (c = CHR 0x0A \<or> c = CHR 0x0D)"

definition isWhiteSpace :: "char \<Rightarrow> bool" where
  "isWhiteSpace c =
     (c \<in> set [CHR 0x09, CHR 0x0A, CHR 0x0B, CHR 0x0C, CHR 0x0D, CHR 0x20, CHR 0xA0])"

definition inRange :: "char \<Rightarrow> char \<Rightarrow> char \<Rightarrow> bool" where
  "inRange lo hi c = ((of_char lo :: nat) \<le> of_char c \<and> (of_char c :: nat) \<le> of_char hi)"

text \<open>\<open>s.split('\n')\<close>: the result always has at least one element.\<close>

fun splitLines :: "string \<Rightarrow> string list" where
  "splitLines [] = [[]]"
| "splitLines (c # cs) =
     (if c = CHR 0x0A then [] # splitLines cs
      else (case splitLines cs of [] \<Rightarrow> [[c]] | l # ls \<Rightarrow> (c # l) # ls))"

definition startsWith :: "string \<Rightarrow> string \<Rightarrow> bool" where
  "startsWith s p = (take (length p) s = p)"

definition endsWith :: "string \<Rightarrow> string \<Rightarrow> bool" where
  "endsWith s p = (length p \<le> length s \<and> drop (length s - length p) s = p)"

text \<open>\<open>s.includes(p)\<close>\<close>

fun includesStr :: "string \<Rightarrow> string \<Rightarrow> bool" where
  "includesStr [] p = (p = [])"
| "includesStr (c # cs) p = (startsWith (c # cs) p \<or> includesStr cs p)"

definition trim :: "string \<Rightarrow> string" where
  "trim s = rev (dropWhile isWhiteSpace (rev (dropWhile isWhiteSpace s)))"

definition substring :: "string \<Rightarrow> nat \<Rightarrow> string" where
  "substring s n = drop n s"

text \<open>\<open>s.replace(/\\/g, '/')\<close>\<close>

definition replaceBackslashes :: "string \<Rightarrow> string" where
  "replaceBackslashes s = map (\<lambda>c. if c = CHR 0x5C then CHR ''/'' else c) s"

text \<open>
  \<open>s.toLowerCase()\<close> on code units below 256: the letters \<open>A\<close> to \<open>Z\<close> and the
  accented capitals \<open>0xC0\<close> to \<open>0xDE\<close> (but for the sign \<open>0xD7\<close>) move up by 32.
\<close>

definition toLowerCase :: "string \<Rightarrow> string" where
  "toLowerCase s =
     map (\<lambda>c. if inRange CHR ''A'' CHR ''Z'' c \<or> (inRange CHR 0xC0 CHR 0xDE c \<and> c \<noteq> CHR 0xD7)
              then char_of (of_char c + (32::nat)) else c) s"

text \<open>\<open>xs[i]\<close>: \<open>undefined\<close> (here \<open>None\<close>) outside the array.\<close>

definition at :: "'a list \<Rightarrow> int \<Rightarrow> 'a option" where
  "at xs i = (if 0 \<le> i \<and> i < int (length xs) then Some (xs ! nat i) else None)"

text \<open>Comparing \<open>undefined\<close> with a number is false, whichever the operator.\<close>

fun jsLe :: "nat option \<Rightarrow> nat \<Rightarrow> bool" where
  "jsLe None n = False"
| "jsLe (Some a) n = (a \<le> n)"

fun jsGt :: "nat option \<Rightarrow> nat \<Rightarrow> bool" where
  "jsGt None n = False"
| "jsGt (Some a) n = (a > n)"


section \<open>Regular expressions\<close>

text \<open>
  The patterns of the parsers are run by the JavaScript engine. The engine is modelled as
  the backtracking matcher of the language definition, restricted to the constructs the
  patterns use: \<open>rmatch r st\<close> lists the states in which \<open>r\<close> can end when started in
  \<open>st\<close>, in the order in which the engine tries them, so the head is the match the
  engine reports. A state holds the offset, the code unit before it (for \<open>^\<close>), the rest
  of the text and what group 1 captured.
\<close>

datatype cclass =
    Space
  | Dot
  | NoneOf "char list"
  | OneOf "(char \<times> char) list" "char list"

fun inClass :: "cclass \<Rightarrow> char \<Rightarrow> bool" where
  "inClass Space c = isWhiteSpace c"
| "inClass Dot c = (\<not> isLineTerminator c)"
| "inClass (NoneOf cs) c = (c \<notin> set cs)"
| "inClass (OneOf rs cs) c = ((\<exists>(lo, hi) \<in> set rs. inRange lo hi c) \<or> c \<in> set cs)"

datatype regex =
    Chr char
  | Cls cclass
  | Eps
  | Bol
  | Eol
  | Seq regex regex
  | Alt regex regex
  | Star regex
  | Lazy regex
  | Grp regex

datatype mstate =
  MState (pos: nat) (prev: "char option") (rest: string) (cap: "string option")

text \<open>
  \<open>Bol\<close> and \<open>Eol\<close> are \<open>^\<close> and \<open>$\<close> under the \<open>m\<close> flag. \<open>Star\<close> is the greedy \<open>*\<close>,
  \<open>Lazy\<close> the reluctant \<open>*?\<close>; an iteration that consumed nothing is dropped, as the
  engine does.
\<close>

function rmatch :: "regex \<Rightarrow> mstate \<Rightarrow> mstate list" where
  "rmatch (Chr c) st =
     (case rest st of
        [] \<Rightarrow> []
      | x # xs \<Rightarrow> if x = c then [MState (pos st + 1) (Some x) xs (cap st)] else [])"
| "rmatch (Cls k) st =
     (case rest st of
        [] \<Rightarrow> []
      | x # xs \<Rightarrow> if inClass k x then [MState (pos st + 1) (Some x) xs (cap st)] else [])"
| "rmatch Eps st = [st]"
| "rmatch Bol st =
     (case prev st of
        None \<Rightarrow> [st]
      | Some x \<Rightarrow> if isLineTerminator x then [st] else [])"
| "rmatch Eol st =
     (case rest st of
        [] \<Rightarrow> [st]
      | x # xs \<Rightarrow> if isLineTerminator x then [st] else [])"
| "rmatch (Seq a b) st = concat (map (rmatch b) (rmatch a st))"
| "rmatch (Alt a b) st = rmatch a st @ rmatch b st"
| "rmatch (Star a) st =
     concat (map (\<lambda>st'. if length (rest st') < length (rest st) then rmatch (Star a) st' else [])
                 (rmatch a st)) @ [st]"
| "rmatch (Lazy a) st =
     st # concat (map (\<lambda>st'. if length (rest st') < length (rest st) then rmatch (Lazy a) st' else [])
                      (rmatch a st))"
| "rmatch (Grp a) st =
     map (\<lambda>st'. MState (pos st') (prev st') (rest st') (Some (take (pos st' - pos st) (rest st))))
         (rmatch a st)"
  by pat_completeness auto
termination
  by (relation "inv_image (less_than <*lex*> less_than) (\<lambda>(r, st). (size r, length (rest st)))")
     auto

fun lit :: "string \<Rightarrow> regex" where
  "lit [] = Eps"
| "lit (c # cs) = Seq (Chr c) (lit cs)"

fun seqs :: "regex list \<Rightarrow> regex" where
  "seqs [] = Eps"
| "seqs (r # rs) = Seq r (seqs rs)"

definition many1 :: "regex \<Rightarrow> regex" where
  "many1 r = Seq r (Star r)"

definition opt :: "regex \<Rightarrow> regex" where
  "opt r = Alt r Eps"

text \<open>
  \<open>search\<close> is one call of \<open>exec\<close>: the first offset, from the current one on, at which
  the pattern matches, with the state where the match starts and the one where it ends.
\<close>

fun search :: "regex \<Rightarrow> nat \<Rightarrow> char option \<Rightarrow> string \<Rightarrow> (mstate \<times> mstate) option" where
  "search r p pr [] =
     (case rmatch r (MState p pr [] None) of
        [] \<Rightarrow> None
      | m # ms \<Rightarrow> Some (MState p pr [] None, m))"
| "search r p pr (x # xs) =
     (case rmatch r (MState p pr (x # xs) None) of
        [] \<Rightarrow> search r (p + 1) (Some x) xs
      | m # ms \<Rightarrow> Some (MState p pr (x # xs) None, m))"

lemma search_rest_le:
  "search r p pr s = Some (b, m) \<Longrightarrow> length (rest b) \<le> length s"
  by (induction s arbitrary: p pr) (force split: list.splits dest: le_SucI)+

text \<open>
  What the loops read of a match: \<open>match.index\<close> and \<open>match[1]\<close>. Group 1 is on the
  path of every match of every pattern used here, so it is never \<open>undefined\<close>.
\<close>

record RegExpMatch =
  index :: nat
  group1 :: string

text \<open>
  \<open>while ((match = pattern.exec(content)) !== null)\<close> with the \<open>g\<close> flag: each call
  resumes where the last match ended. A match of length zero leaves \<open>lastIndex\<close> where it
  is, so the same match is found again and the loop never ends: \<open>None\<close>.
\<close>

function execAll :: "regex \<Rightarrow> mstate \<Rightarrow> RegExpMatch list option" where
  "execAll r st =
     (case search r (pos st) (prev st) (rest st) of
        None \<Rightarrow> Some []
      | Some (b, m) \<Rightarrow>
          if length (rest m) < length (rest b)
          then map_option
                 ((#) \<lparr>index = pos b, group1 = (case cap m of None \<Rightarrow> [] | Some g \<Rightarrow> g)\<rparr>)
                 (execAll r (MState (pos m) (prev m) (rest m) None))
          else None)"
  by pat_completeness auto
termination
  apply (relation "measure (\<lambda>(r, st). length (rest st))")
   apply simp
  apply (auto dest: search_rest_le)
  done

definition matches :: "regex \<Rightarrow> string \<Rightarrow> RegExpMatch list option" where
  "matches r content = execAll r (MState 0 None content None)"

text \<open>
  A pattern is \<open>consuming\<close> when its shape alone shows that every match takes at
  least one code unit.
\<close>

fun consuming :: "regex \<Rightarrow> bool" where
  "consuming (Chr c) = True"
| "consuming (Cls k) = True"
| "consuming (Seq a b) = (consuming a \<or> consuming b)"
| "consuming (Alt a b) = (consuming a \<and> consuming b)"
| "consuming (Grp a) = consuming a"
| "consuming r = False"


section \<open>The platform\<close>

text \<open>
  Node's \<open>path\<close> and \<open>fs\<close> modules and the \<open>glob\<close> package are not part of the
  repository; the code is modelled over any implementation of them. \<open>glob\<close> is called
  with the patterns and the ignore list (and \<open>nodir: true\<close>); its promise is raced against
  a timer of 20 seconds, so what matters is how it stands when the race is decided:
  resolved with a file list, rejected, or still pending. The engine that runs the code is
  part of the platform too: \<open>maxArguments\<close> is the largest number of arguments it
  accepts in one call.
\<close>

datatype 'a settled = Resolved 'a | Rejected exn | Pending

record platform =
  path_join :: "string \<Rightarrow> string \<Rightarrow> string"
  path_resolve :: "string \<Rightarrow> string"
  path_relative :: "string \<Rightarrow> string \<Rightarrow> string"
  path_basename :: "string \<Rightarrow> string"
  path_extname :: "string \<Rightarrow> string"
  existsSync :: "string \<Rightarrow> bool"
  readFileSync :: "string \<Rightarrow> exn + string"
  glob :: "string list \<Rightarrow> string list \<Rightarrow> string list settled"
  maxArguments :: nat


section \<open>fileUtils\<close>

definition SUPPORTED_EXTENSIONS :: "string list" where
  "SUPPORTED_EXTENSIONS =
     [''.js'', ''.ts'', ''.jsx'', ''.tsx'', ''.py'', ''.java'', ''.cs'', ''.go'', ''.rb'',
      ''.php'', ''.swift'', ''.c'', ''.cpp'', ''.h'', ''.hpp'']"

definition readGitignore :: "platform \<Rightarrow> string \<Rightarrow> string list" where
  "readGitignore w dirPath =
     (let gitignorePath = path_join w dirPath ''.gitignore'' in
      if \<not> existsSync w gitignorePath then []
      else (case readFileSync w gitignorePath of
              Inl error \<Rightarrow> []
            | Inr content \<Rightarrow>
                filter (\<lambda>line. length line > 0 \<and> \<not> startsWith line ''#'')
                  (map trim (splitLines content))))"

definition convertPattern :: "string \<Rightarrow> string \<Rightarrow> string" where
  "convertPattern normalizedBasePath pattern =
     (let normalizedPattern = (if startsWith pattern ''/'' then substring pattern 1 else pattern);
          normalizedPattern = (if endsWith normalizedPattern ''/''
                               then normalizedPattern @ ''**'' else normalizedPattern)
      in if startsWith normalizedPattern ''!''
         then ''!'' @ normalizedBasePath @ ''/'' @ substring normalizedPattern 1
         else normalizedBasePath @ ''/'' @ normalizedPattern)"

definition convertGitignorePatternsToGlob :: "string list \<Rightarrow> string \<Rightarrow> string list" where
  "convertGitignorePatternsToGlob patterns basePath =
     (let normalizedBasePath = replaceBackslashes basePath
      in map (convertPattern normalizedBasePath) patterns)"

definition commonIgnores :: "string \<Rightarrow> string list" where
  "commonIgnores normalizedPath =
     map (\<lambda>pattern. normalizedPath @ ''/'' @ pattern)
       [''node_modules/**'', ''dist/**'', ''.git/**'', ''coverage/**'', ''build/**'',
        ''.cache/**'', ''.vscode/**'', ''.idea/**'']"

definition ignorePatterns :: "platform \<Rightarrow> string \<Rightarrow> string list" where
  "ignorePatterns w dirPath =
     (let normalizedPath = replaceBackslashes dirPath;
          gitignorePatterns = readGitignore w dirPath
      in convertGitignorePatternsToGlob gitignorePatterns normalizedPath
         @ commonIgnores normalizedPath)"

definition searchPatterns :: "string \<Rightarrow> string list" where
  "searchPatterns dirPath =
     (let normalizedPath = replaceBackslashes dirPath
      in map (\<lambda>ext. normalizedPath @ ''/**/*'' @ ext) SUPPORTED_EXTENSIONS)"

text \<open>\<open>Promise.race([glob(...), timeoutPromise])\<close>\<close>

definition raceWithTimeout :: "'a settled \<Rightarrow> exn + 'a" where
  "raceWithTimeout p =
     (case p of
        Resolved v \<Rightarrow> Inr v
      | Rejected e \<Rightarrow> Inl e
      | Pending \<Rightarrow> Inl (Error ''File search timed out after 20 seconds''))"

text \<open>
  \<open>getFilesInDirectory\<close>: the \<open>try\<close> block, then the function with its \<open>catch\<close>. The
  parameter \<open>maxDepth\<close> is received and not read.
\<close>

definition getFilesInDirectory_try :: "platform \<Rightarrow> string \<Rightarrow> int \<Rightarrow> exn + string list" where
  "getFilesInDirectory_try w dirPath maxDepth =
     raceWithTimeout (glob w (searchPatterns dirPath) (ignorePatterns w dirPath))"

definition getFilesInDirectory :: "platform \<Rightarrow> string \<Rightarrow> int \<Rightarrow> exn + string list" where
  "getFilesInDirectory w dirPath maxDepth =
     (case getFilesInDirectory_try w dirPath maxDepth of
        Inr files \<Rightarrow> Inr files
      | Inl error \<Rightarrow> Inr [])"

definition readFileContent :: "platform \<Rightarrow> string \<Rightarrow> string" where
  "readFileContent w filePath =
     (case readFileSync w filePath of Inr content \<Rightarrow> content | Inl error \<Rightarrow> [])"

definition getFileLanguage :: "platform \<Rightarrow> string \<Rightarrow> string" where
  "getFileLanguage w filePath =
     (let ext = toLowerCase (path_extname w filePath) in
      if ext = ''.js'' \<or> ext = ''.jsx'' then ''javascript''
      else if ext = ''.ts'' \<or> ext = ''.tsx'' then ''typescript''
      else if ext = ''.py'' then ''python''
      else if ext = ''.java'' then ''java''
      else if ext = ''.cs'' then ''csharp''
      else if ext = ''.go'' then ''go''
      else if ext = ''.rb'' then ''ruby''
      else if ext = ''.php'' then ''php''
      else if ext = ''.swift'' then ''swift''
      else if ext = ''.c'' \<or> ext = ''.h'' then ''c''
      else if ext = ''.cpp'' \<or> ext = ''.hpp'' then ''cpp''
      else ''unknown'')"


section \<open>Parsers\<close>

text \<open>
  \<open>CodeEntity\<close>; its field \<open>file\<close> is \<open>fileName\<close> here, and its \<open>type\<close>, one of
  \<open>'function'\<close> and \<open>'class'\<close>, an \<open>entity_type\<close>.
\<close>

datatype entity_type = Function | Class

record CodeEntity =
  name :: string
  line :: int
  fileName :: string
  relativePath :: string
  type :: entity_type

text \<open>
  The offset at which each line starts:
  \<open>for (const line of content.split('\n')) { linePositions.push(position); position += line.length + 1; }\<close>
\<close>

fun linePositionsFrom :: "nat \<Rightarrow> string list \<Rightarrow> nat list" where
  "linePositionsFrom position [] = []"
| "linePositionsFrom position (l # ls) = position # linePositionsFrom (position + length l + 1) ls"

definition computeLinePositions :: "string \<Rightarrow> nat list" where
  "computeLinePositions content = linePositionsFrom 0 (splitLines content)"

text \<open>
  The binary search of both \<open>findFunctions\<close> and \<open>findClasses\<close>: \<open>Some mid\<close> when the
  loop leaves through \<open>break\<close>, \<open>None\<close> when it runs out (\<open>low > high\<close>).
\<close>

function binarySearch :: "nat list \<Rightarrow> nat \<Rightarrow> int \<Rightarrow> int \<Rightarrow> int option" where
  "binarySearch linePositions matchPosition low high =
     (if low \<le> high then
        (let mid = (low + high) div 2 in
         if jsLe (at linePositions mid) matchPosition
            \<and> (mid = int (length linePositions) - 1
                \<or> jsGt (at linePositions (mid + 1)) matchPosition)
         then Some mid
         else if jsGt (at linePositions mid) matchPosition
         then binarySearch linePositions matchPosition low (mid - 1)
         else binarySearch linePositions matchPosition (mid + 1) high)
      else None)"
  by pat_completeness auto
termination
  by (relation "measure (\<lambda>(lp, mp, low, high). nat (high - low + 1))") auto

definition findLine :: "nat list \<Rightarrow> nat \<Rightarrow> int option" where
  "findLine linePositions matchPosition =
     binarySearch linePositions matchPosition 0 (int (length linePositions) - 1)"

subsection \<open>JSParser\<close>

definition identChar :: cclass where
  "identChar =
     OneOf [(CHR ''a'', CHR ''z''), (CHR ''A'', CHR ''Z''), (CHR ''0'', CHR ''9'')] ''_$''"

text \<open>\<open>/function\s+([a-zA-Z0-9_$]+)\s*\(/g\<close>\<close>

definition functionDeclPattern :: regex where
  "functionDeclPattern =
     seqs [lit ''function'', many1 (Cls Space), Grp (many1 (Cls identChar)), Star (Cls Space),
           Chr CHR ''('']"

text \<open>\<open>/(?:const|let|var)\s+([a-zA-Z0-9_$]+)\s*=\s*(?:async\s*)?\(.*?\)\s*=>/g\<close>\<close>

definition arrowFunctionPattern :: regex where
  "arrowFunctionPattern =
     seqs [Alt (lit ''const'') (Alt (lit ''let'') (lit ''var'')), many1 (Cls Space),
           Grp (many1 (Cls identChar)), Star (Cls Space), Chr CHR ''='', Star (Cls Space),
           opt (Seq (lit ''async'') (Star (Cls Space))), Chr CHR ''('', Lazy (Cls Dot),
           Chr CHR '')'', Star (Cls Space), lit ''=>'']"

text \<open>\<open>/([a-zA-Z0-9_$]+)\s*\([^)]*\)\s*{/g\<close>\<close>

definition methodPattern :: regex where
  "methodPattern =
     seqs [Grp (many1 (Cls identChar)), Star (Cls Space), Chr CHR ''('',
           Star (Cls (NoneOf '')'')), Chr CHR '')'', Star (Cls Space), Chr CHR ''{'']"

definition functionPatterns :: "regex list" where
  "functionPatterns = [functionDeclPattern, arrowFunctionPattern, methodPattern]"

definition reservedWords :: "string set" where
  "reservedWords = {''if'', ''for'', ''while'', ''switch'', ''catch''}"

definition functionLineNumber :: "nat list \<Rightarrow> nat \<Rightarrow> int" where
  "functionLineNumber linePositions matchPosition =
     (case findLine linePositions matchPosition of None \<Rightarrow> 1 | Some mid \<Rightarrow> mid + 1)"

text \<open>The body of the \<open>while\<close> loop of \<open>findFunctions\<close>, over the matches of one pattern.\<close>

fun functionMatches ::
  "platform \<Rightarrow> nat list \<Rightarrow> string \<Rightarrow> string \<Rightarrow> RegExpMatch list \<Rightarrow> CodeEntity list
   \<Rightarrow> CodeEntity list" where
  "functionMatches w linePositions filePath relPath [] entities = entities"
| "functionMatches w linePositions filePath relPath (m # ms) entities =
     (let functionName = group1 m in
      if functionName \<in> reservedWords
      then functionMatches w linePositions filePath relPath ms entities
      else functionMatches w linePositions filePath relPath ms
             (entities @
              [\<lparr>name = functionName,
                line = functionLineNumber linePositions (index m),
                fileName = path_basename w filePath,
                relativePath = relPath,
                type = Function\<rparr>]))"

text \<open>\<open>for (const pattern of functionPatterns)\<close>\<close>

fun functionPatternLoop ::
  "platform \<Rightarrow> string \<Rightarrow> nat list \<Rightarrow> string \<Rightarrow> string \<Rightarrow> regex list \<Rightarrow> CodeEntity list
   \<Rightarrow> CodeEntity list option" where
  "functionPatternLoop w content linePositions filePath relPath [] entities = Some entities"
| "functionPatternLoop w content linePositions filePath relPath (pattern # ps) entities =
     (case matches pattern content of
        None \<Rightarrow> None
      | Some ms \<Rightarrow>
          functionPatternLoop w content linePositions filePath relPath ps
            (functionMatches w linePositions filePath relPath ms entities))"

definition findFunctions ::
  "platform \<Rightarrow> string \<Rightarrow> string \<Rightarrow> string \<Rightarrow> CodeEntity list \<Rightarrow> CodeEntity list option" where
  "findFunctions w content filePath relPath entities =
     functionPatternLoop w content (computeLinePositions content) filePath relPath
       functionPatterns entities"

text \<open>\<open>/(?:^|\s)class\s+([a-zA-Z][a-zA-Z0-9_$]*)(?:\s|\{|$)/gm\<close>\<close>

definition classPattern :: regex where
  "classPattern =
     seqs [Alt Bol (Cls Space), lit ''class'', many1 (Cls Space),
           Grp (Seq (Cls (OneOf [(CHR ''a'', CHR ''z''), (CHR ''A'', CHR ''Z'')] []))
                    (Star (Cls identChar))),
           Alt (Cls Space) (Alt (Chr CHR ''{'') Eol)]"

text \<open>
  The test on the text of the line: \<open>//\<close> at the start of the trimmed line, or
  \<open>"class\<close> (or \<open>'class\<close>) in the line with no \<open>class\<close> followed by a blank in it.
\<close>

definition notRealClassLine :: "string \<Rightarrow> bool" where
  "notRealClassLine lineContent =
     (startsWith (trim lineContent) ''//''
      \<or> (includesStr lineContent (CHR 0x22 # ''class'') \<and> \<not> includesStr lineContent ''class '')
      \<or> (includesStr lineContent (CHR 0x27 # ''class'') \<and> \<not> includesStr lineContent ''class ''))"

definition classLineNumber :: "nat list \<Rightarrow> nat \<Rightarrow> int" where
  "classLineNumber linePositions matchPosition =
     (case findLine linePositions matchPosition of None \<Rightarrow> 0 | Some mid \<Rightarrow> mid)"

text \<open>
  The body of the \<open>while\<close> loop of \<open>findClasses\<close>, with the set \<open>foundClasses\<close> as state.
  \<open>lines[lineNumber].trim()\<close> throws a TypeError when the line is \<open>undefined\<close>.
\<close>

fun classMatches ::
  "platform \<Rightarrow> nat list \<Rightarrow> string list \<Rightarrow> string \<Rightarrow> string \<Rightarrow> RegExpMatch list \<Rightarrow> string set
   \<Rightarrow> CodeEntity list \<Rightarrow> exn + CodeEntity list" where
  "classMatches w linePositions lines filePath relPath [] foundClasses entities = Inr entities"
| "classMatches w linePositions lines filePath relPath (m # ms) foundClasses entities =
     (let className = group1 m;
          classKey = className @ '':'' @ filePath
      in if classKey \<in> foundClasses
         then classMatches w linePositions lines filePath relPath ms foundClasses entities
         else
           (let lineNumber = classLineNumber linePositions (index m) in
            case at lines lineNumber of
              None \<Rightarrow> Inl (TypeError ''Cannot read properties of undefined (reading 'trim')'')
            | Some lineContent \<Rightarrow>
                if notRealClassLine lineContent
                then classMatches w linePositions lines filePath relPath ms foundClasses entities
                else classMatches w linePositions lines filePath relPath ms
                       (insert classKey foundClasses)
                       (entities @
                        [\<lparr>name = className,
                          line = lineNumber + 1,
                          fileName = path_basename w filePath,
                          relativePath = relPath,
                          type = Class\<rparr>])))"

text \<open>
  \<open>findClasses\<close> fills its own \<open>linePositions\<close> only when \<open>entities\<close> is still empty;
  otherwise the table it searches is the empty array.
\<close>

definition findClasses ::
  "platform \<Rightarrow> string \<Rightarrow> string \<Rightarrow> string \<Rightarrow> CodeEntity list
   \<Rightarrow> (exn + CodeEntity list) option" where
  "findClasses w content filePath relPath entities =
     (let linePositions = (if length entities = 0 then computeLinePositions content else [])
      in case matches classPattern content of
           None \<Rightarrow> None
         | Some ms \<Rightarrow>
             Some (classMatches w linePositions (splitLines content) filePath relPath ms {}
                     entities))"

definition relativePathOf :: "platform \<Rightarrow> string \<Rightarrow> string \<Rightarrow> string" where
  "relativePathOf w filePath basePath =
     (if basePath \<noteq> [] then path_relative w basePath filePath else filePath)"

definition JSParser_parseFile ::
  "platform \<Rightarrow> string \<Rightarrow> string \<Rightarrow> (exn + CodeEntity list) option" where
  "JSParser_parseFile w filePath basePath =
     (let content = readFileContent w filePath;
          relPath = relativePathOf w filePath basePath
      in case findFunctions w content filePath relPath [] of
           None \<Rightarrow> None
         | Some entities \<Rightarrow> findClasses w content filePath relPath entities)"


subsection \<open>PythonParser and GoParser\<close>

text \<open>\<open>content.substring(0, match.index).split('\n').length\<close>\<close>

definition lineOfOffset :: "string \<Rightarrow> nat \<Rightarrow> int" where
  "lineOfOffset content matchIndex = int (length (splitLines (take matchIndex content)))"

definition pyIdentChar :: cclass where
  "pyIdentChar =
     OneOf [(CHR ''a'', CHR ''z''), (CHR ''A'', CHR ''Z''), (CHR ''0'', CHR ''9'')] ''_''"

text \<open>\<open>/def\s+([a-zA-Z0-9_]+)\s*\(/g\<close>\<close>

definition pyFunctionPattern :: regex where
  "pyFunctionPattern =
     seqs [lit ''def'', many1 (Cls Space), Grp (many1 (Cls pyIdentChar)), Star (Cls Space),
           Chr CHR ''('']"

text \<open>\<open>/class\s+([a-zA-Z0-9_]+)\s*(?:\(.*\))?\s*:/g\<close>\<close>

definition pyClassPattern :: regex where
  "pyClassPattern =
     seqs [lit ''class'', many1 (Cls Space), Grp (many1 (Cls pyIdentChar)), Star (Cls Space),
           opt (seqs [Chr CHR ''('', Star (Cls Dot), Chr CHR '')'']), Star (Cls Space),
           Chr CHR '':'']"

text \<open>\<open>/func\s+(?:\([^)]*\)\s+)?([a-zA-Z0-9_]+)\s*\(/g\<close>\<close>

definition goFunctionPattern :: regex where
  "goFunctionPattern =
     seqs [lit ''func'', many1 (Cls Space),
           opt (seqs [Chr CHR ''('', Star (Cls (NoneOf '')'')), Chr CHR '')'', many1 (Cls Space)]),
           Grp (many1 (Cls pyIdentChar)), Star (Cls Space), Chr CHR ''('']"

text \<open>
  \<open>findFunctions\<close> of the Python and of the Go parser are the same loop over the matches
  of their one pattern.
\<close>

fun plainFunctionMatches ::
  "platform \<Rightarrow> string \<Rightarrow> string \<Rightarrow> string \<Rightarrow> RegExpMatch list \<Rightarrow> CodeEntity list
   \<Rightarrow> CodeEntity list" where
  "plainFunctionMatches w content filePath relPath [] entities = entities"
| "plainFunctionMatches w content filePath relPath (m # ms) entities =
     plainFunctionMatches w content filePath relPath ms
       (entities @
        [\<lparr>name = group1 m,
          line = lineOfOffset content (index m),
          fileName = path_basename w filePath,
          relativePath = relPath,
          type = Function\<rparr>])"

definition plainFindFunctions ::
  "regex \<Rightarrow> platform \<Rightarrow> string \<Rightarrow> string \<Rightarrow> string \<Rightarrow> CodeEntity list
   \<Rightarrow> CodeEntity list option" where
  "plainFindFunctions functionPattern w content filePath relPath entities =
     (case matches functionPattern content of
        None \<Rightarrow> None
      | Some ms \<Rightarrow> Some (plainFunctionMatches w content filePath relPath ms entities))"

definition pyNotRealClassLine :: "string \<Rightarrow> bool" where
  "pyNotRealClassLine lineContent =
     (startsWith (trim lineContent) ''#''
      \<or> (includesStr lineContent (CHR 0x22 # ''class'') \<and> \<not> includesStr lineContent ''class '')
      \<or> (includesStr lineContent (CHR 0x27 # ''class'') \<and> \<not> includesStr lineContent ''class ''))"

fun pyClassMatches ::
  "platform \<Rightarrow> string \<Rightarrow> string list \<Rightarrow> string \<Rightarrow> string \<Rightarrow> RegExpMatch list \<Rightarrow> string set
   \<Rightarrow> CodeEntity list \<Rightarrow> CodeEntity list" where
  "pyClassMatches w content lines filePath relPath [] foundClasses entities = entities"
| "pyClassMatches w content lines filePath relPath (m # ms) foundClasses entities =
     (let className = group1 m;
          classKey = className @ '':'' @ filePath
      in if classKey \<in> foundClasses
         then pyClassMatches w content lines filePath relPath ms foundClasses entities
         else
           (let lineNumber = lineOfOffset content (index m);
                lineContent =
                  (if lineNumber > 0 \<and> lineNumber \<le> int (length lines)
                   then (case at lines (lineNumber - 1) of Some l \<Rightarrow> l | None \<Rightarrow> [])
                   else [])
            in if pyNotRealClassLine lineContent
               then pyClassMatches w content lines filePath relPath ms foundClasses entities
               else pyClassMatches w content lines filePath relPath ms
                      (insert classKey foundClasses)
                      (entities @
                       [\<lparr>name = className,
                         line = lineNumber,
                         fileName = path_basename w filePath,
                         relativePath = relPath,
                         type = Class\<rparr>])))"

definition pyFindClasses ::
  "platform \<Rightarrow> string \<Rightarrow> string \<Rightarrow> string \<Rightarrow> CodeEntity list \<Rightarrow> CodeEntity list option" where
  "pyFindClasses w content filePath relPath entities =
     (case matches pyClassPattern content of
        None \<Rightarrow> None
      | Some ms \<Rightarrow>
          Some (pyClassMatches w content (splitLines content) filePath relPath ms {} entities))"

definition PythonParser_parseFile ::
  "platform \<Rightarrow> string \<Rightarrow> string \<Rightarrow> (exn + CodeEntity list) option" where
  "PythonParser_parseFile w filePath basePath =
     (let content = readFileContent w filePath;
          relPath = relativePathOf w filePath basePath
      in case plainFindFunctions pyFunctionPattern w content filePath relPath [] of
           None \<Rightarrow> None
         | Some entities \<Rightarrow> map_option Inr (pyFindClasses w content filePath relPath entities))"

definition GoParser_parseFile ::
  "platform \<Rightarrow> string \<Rightarrow> string \<Rightarrow> (exn + CodeEntity list) option" where
  "GoParser_parseFile w filePath basePath =
     (let content = readFileContent w filePath;
          relPath = relativePathOf w filePath basePath
      in map_option Inr (plainFindFunctions goFunctionPattern w content filePath relPath []))"

subsection \<open>Choosing the parser\<close>

datatype Parser = JSParser | PythonParser | GoParser

fun parseFile :: "Parser \<Rightarrow> platform \<Rightarrow> string \<Rightarrow> string \<Rightarrow> (exn + CodeEntity list) option" where
  "parseFile JSParser = JSParser_parseFile"
| "parseFile PythonParser = PythonParser_parseFile"
| "parseFile GoParser = GoParser_parseFile"

text \<open>The result is \<open>Parser | null\<close> in the source; no branch returns \<open>null\<close>.\<close>

definition getParserForFile :: "platform \<Rightarrow> string \<Rightarrow> Parser option" where
  "getParserForFile w filePath =
     (let language = getFileLanguage w filePath in
      if language = ''javascript'' \<or> language = ''typescript'' then Some JSParser
      else if language = ''python'' then Some PythonParser
      else if language = ''go'' then Some GoParser
      else Some JSParser)"


section \<open>Analyzers\<close>

text \<open>
  The loop over the files is the same in \<open>getFunctions\<close> and \<open>getClasses\<close> but for the
  type kept by the filter, here the parameter \<open>kind\<close>. The records of a file are
  added by \<open>allFunctions.push(...functions)\<close>: the spread hands every record to
  \<open>push\<close> as an argument of its own, and the engine throws a RangeError when these are
  more than it accepts in one call. Nothing in the loop catches, so this error, like one
  thrown by a parser, leaves the loop.
\<close>

fun analyzeFiles ::
  "platform \<Rightarrow> string \<Rightarrow> entity_type \<Rightarrow> string list \<Rightarrow> CodeEntity list
   \<Rightarrow> (exn + CodeEntity list) option" where
  "analyzeFiles w normalizedPath kind [] found = Some (Inr found)"
| "analyzeFiles w normalizedPath kind (f # fs) found =
     (case getParserForFile w f of
        None \<Rightarrow> analyzeFiles w normalizedPath kind fs found
      | Some parser \<Rightarrow>
          (case parseFile parser w f normalizedPath of
             None \<Rightarrow> None
           | Some (Inl error) \<Rightarrow> Some (Inl error)
           | Some (Inr entities) \<Rightarrow>
               (let kept = filter (\<lambda>entity. type entity = kind) entities in
                if length kept > maxArguments w
                then Some (Inl (RangeError ''Maximum call stack size exceeded''))
                else analyzeFiles w normalizedPath kind fs (found @ kept))))"

definition analyze_try ::
  "entity_type \<Rightarrow> platform \<Rightarrow> string \<Rightarrow> int \<Rightarrow> (exn + CodeEntity list) option" where
  "analyze_try kind w dirPath maxDepth =
     (let normalizedPath = path_resolve w dirPath in
      case getFilesInDirectory w normalizedPath maxDepth of
        Inl error \<Rightarrow> Some (Inl error)
      | Inr files \<Rightarrow> analyzeFiles w normalizedPath kind files [])"

text \<open>\<open>try { ... } catch (error) { return []; }\<close>\<close>

definition catchAll :: "(exn + CodeEntity list) option \<Rightarrow> (exn + CodeEntity list) option" where
  "catchAll r =
     (case r of
        None \<Rightarrow> None
      | Some (Inl error) \<Rightarrow> Some (Inr [])
      | Some (Inr entities) \<Rightarrow> Some (Inr entities))"

definition getFunctions :: "platform \<Rightarrow> string \<Rightarrow> int \<Rightarrow> (exn + CodeEntity list) option" where
  "getFunctions w dirPath maxDepth = catchAll (analyze_try Function w dirPath maxDepth)"

definition getClasses :: "platform \<Rightarrow> string \<Rightarrow> int \<Rightarrow> (exn + CodeEntity list) option" where
  "getClasses w dirPath maxDepth = catchAll (analyze_try Class w dirPath maxDepth)"


section \<open>A platform in memory\<close>

text \<open>
  To run the code on concrete inputs: the files are a table from path to text, the paths
  are absolute POSIX paths without \<open>.\<close> and \<open>..\<close> segments, \<open>glob\<close> settles as given,
  and the engine accepts a thousand arguments in a call.
\<close>

definition lastSegment :: "char \<Rightarrow> string \<Rightarrow> string" where
  "lastSegment sep p = rev (takeWhile (\<lambda>c. c \<noteq> sep) (rev p))"

definition dropTrailingSlashes :: "string \<Rightarrow> string" where
  "dropTrailingSlashes p =
     (let q = rev (dropWhile (\<lambda>c. c = CHR ''/'') (rev p))
      in if q = [] \<and> p \<noteq> [] then ''/'' else q)"

definition posixBasename :: "string \<Rightarrow> string" where
  "posixBasename p = lastSegment CHR ''/'' (dropTrailingSlashes p)"

text \<open>
  The extension starts at the last dot of the base name; a base name without a dot, or
  whose only dot is its first character, has none.
\<close>

definition posixExtname :: "string \<Rightarrow> string" where
  "posixExtname p =
     (let b = posixBasename p; e = CHR ''.'' # lastSegment CHR ''.'' b
      in if CHR ''.'' \<notin> set b \<or> b = ''..'' \<or> length e = length b then [] else e)"

definition memoryPlatform :: "(string \<times> string) list \<Rightarrow> string list settled \<Rightarrow> platform" where
  "memoryPlatform files globbed =
     \<lparr>path_join = (\<lambda>a b. a @ ''/'' @ b),
      path_resolve = dropTrailingSlashes,
      path_relative = (\<lambda>base p. drop (length base + 1) p),
      path_basename = posixBasename,
      path_extname = posixExtname,
      existsSync = (\<lambda>p. map_of files p \<noteq> None),
      readFileSync =
        (\<lambda>p. case map_of files p of
                None \<Rightarrow> Inl (Error ''ENOENT: no such file or directory'')
              | Some content \<Rightarrow> Inr content),
      glob = (\<lambda>patterns ignore. globbed),
      maxArguments = 1000\<rparr>"


section \<open>The translation of ignore rules, as specified\<close>

text \<open>
  The specification describes the translation of one ignore-file pattern as steps, each
  working on the result of the one before: strip a single leading \<open>/\<close>; if the pattern
  ends in \<open>/\<close>, append the recursive wildcard; if it starts with \<open>!\<close>, it is a negation
  under the root, and an exclusion under the root otherwise.
\<close>

datatype IgnoreRule = Exclusion string | Negation string

fun stripLeadingSlash :: "string \<Rightarrow> string" where
  "stripLeadingSlash [] = []"
| "stripLeadingSlash (c # cs) = (if c = CHR ''/'' then cs else c # cs)"

definition coverSubtree :: "string \<Rightarrow> string" where
  "coverSubtree p = (if p \<noteq> [] \<and> last p = CHR ''/'' then p @ ''**'' else p)"

fun rootedRule :: "string \<Rightarrow> string \<Rightarrow> IgnoreRule" where
  "rootedRule root [] = Exclusion (root @ ''/'')"
| "rootedRule root (c # cs) =
     (if c = CHR ''!'' then Negation (root @ ''/'' @ cs) else Exclusion (root @ ''/'' @ c # cs))"

definition translateRule :: "string \<Rightarrow> string \<Rightarrow> IgnoreRule" where
  "translateRule root p = rootedRule root (coverSubtree (stripLeadingSlash p))"

fun globText :: "IgnoreRule \<Rightarrow> string" where
  "globText (Exclusion g) = g"
| "globText (Negation g) = ''!'' @ g"


section \<open>The line of an offset, as specified\<close>

text \<open>
  The line that holds an offset of a text is counted from the line breaks before the
  offset: the offset lies on line \<open>newlinesBefore content offset + 1\<close>.
\<close>

definition newlinesBefore :: "string \<Rightarrow> nat \<Rightarrow> nat" where
  "newlinesBefore content offset = length (filter (\<lambda>c. c = CHR 0x0A) (take offset content))"

definition lineContaining :: "string \<Rightarrow> nat \<Rightarrow> string" where
  "lineContaining content offset = splitLines content ! newlinesBefore content offset"


section \<open>Sample files\<close>

text \<open>A script with a guarded block and one function declaration.\<close>

definition guardedScript :: string where
  "guardedScript = ''if (ready) {\<newline>}\<newline>function run() {\<newline>}''"

definition runEntity :: CodeEntity where
  "runEntity =
     \<lparr>name = ''run'', line = 3, fileName = ''a.js'', relativePath = ''a.js'', type = Function\<rparr>"


text \<open>A project whose ignore file exists and cannot be read.\<close>

definition unreadableIgnoreFile :: platform where
  "unreadableIgnoreFile =
     (memoryPlatform [(''/p/.gitignore'', ''build/'')] (Resolved [''/p/a.js'']))
       \<lparr>readFileSync := (\<lambda>p. Inl (Error ''EACCES: permission denied''))\<rparr>"

text \<open>A project whose only source file lies two directories below the root.\<close>

definition deepTree :: platform where
  "deepTree =
     memoryPlatform [(''/p/a/b/x.js'', ''function deep() {}'')] (Resolved [''/p/a/b/x.js''])"

definition deepEntity :: CodeEntity where
  "deepEntity =
     \<lparr>name = ''deep'', line = 1, fileName = ''x.js'', relativePath = ''a/b/x.js'',
      type = Function\<rparr>"



definition fooEntity :: CodeEntity where
  "fooEntity =
     \<lparr>name = ''foo'', line = 1, fileName = ''a.js'', relativePath = ''a.js'', type = Function\<rparr>"


text \<open>
  A script with a function declaration on line 4 and a class declaration on line 13, and
  the project that holds it.
\<close>

definition cartScript :: string where
  "cartScript =
     ''const TAX = 0;\<newline>\<newline>// Function declaration\<newline>function calculateTotal(items) {\<newline>  return items.length;\<newline>}\<newline>\<newline>\<newline>\<newline>\<newline>\<newline>// Class declaration\<newline>class ShoppingCart {\<newline>}''"

definition cartProject :: platform where
  "cartProject = memoryPlatform [(''/p/cart.js'', cartScript)] (Resolved [''/p/cart.js''])"

definition cartEntity :: "string \<Rightarrow> int \<Rightarrow> entity_type \<Rightarrow> CodeEntity" where
  "cartEntity n l k =
     \<lparr>name = n, line = l, fileName = ''cart.js'', relativePath = ''cart.js'', type = k\<rparr>"

text \<open>A script whose class declaration is on its second line.\<close>

definition secondLineClass :: string where
  "secondLineClass = ''const a = 1;\<newline>class Foo {}''"

text \<open>A project of one file with one function declaration.\<close>

definition singleFunction :: platform where
  "singleFunction = memoryPlatform [(''/p/a.js'', ''function foo() {}'')] (Resolved [''/p/a.js''])"


text \<open>A comment line and a string literal that name a class.\<close>

definition commentAndString :: string where
  \<open>commentAndString = ''// class Foo\<newline>const s = "class Bar"''\<close>

definition commentAndStringProject :: platform where
  "commentAndStringProject = memoryPlatform [(''/p/a.js'', commentAndString)] Pending"

text \<open>A string literal in which a blank comes before the word \<open>class\<close>.\<close>

definition blankBeforeClass :: string where
  \<open>blankBeforeClass = ''const s = " class Bar "''\<close>

definition blankBeforeClassProject :: platform where
  "blankBeforeClassProject = memoryPlatform [(''/p/a.js'', blankBeforeClass)] Pending"


text \<open>
  A project of one file with one function and two classes, run by an engine that accepts
  a single argument in a call (the limit is set this low to keep the file short).
\<close>

definition crowdedScript :: string where
  "crowdedScript = ''function foo() {}\<newline>class A {}\<newline>class B {}''"

definition crowdedProject :: platform where
  "crowdedProject =
     (memoryPlatform [(''/p/a.js'', crowdedScript)] (Resolved [''/p/a.js'']))
       \<lparr>maxArguments := 1\<rparr>"


section \<open>The loops over the matches end\<close>

declare execAll.simps [simp del]
declare binarySearch.simps [simp del]
declare rmatch.simps(8,9) [simp del]

lemma rest_Cons_length: "x # xs = rest st \<Longrightarrow> length (rest st) = Suc (length xs)"
  by (drule sym) simp

lemma rmatch_Star_cases:
  assumes "m \<in> set (rmatch (Star a) st)"
  shows "m = st \<or> (\<exists>st' \<in> set (rmatch a st).
           length (rest st') < length (rest st) \<and> m \<in> set (rmatch (Star a) st'))"
  using assms by (subst (asm) rmatch.simps(8)) (auto split: if_splits)

lemma rmatch_Lazy_cases:
  assumes "m \<in> set (rmatch (Lazy a) st)"
  shows "m = st \<or> (\<exists>st' \<in> set (rmatch a st).
           length (rest st') < length (rest st) \<and> m \<in> set (rmatch (Lazy a) st'))"
  using assms by (subst (asm) rmatch.simps(9)) (auto split: if_splits)

lemma rmatch_rest_le:
  "m \<in> set (rmatch r st) \<Longrightarrow> length (rest m) \<le> length (rest st)"
proof (induction r st arbitrary: m rule: rmatch.induct)
  case (6 a b st)
  from "6.prems" obtain st' where a: "st' \<in> set (rmatch a st)" and b: "m \<in> set (rmatch b st')"
    by auto
  from "6.IH"(1)[OF a] "6.IH"(2)[OF a b] show ?case by simp
next
  case (8 a st)
  from rmatch_Star_cases[OF "8.prems"] consider "m = st"
    | st' where "st' \<in> set (rmatch a st)" "length (rest st') < length (rest st)"
        "m \<in> set (rmatch (Star a) st')"
    by blast
  then show ?case
  proof cases
    case 1 then show ?thesis by simp
  next
    case 2
    from "8.IH"(2)[OF 2(1) 2(2) 2(3)] 2(2) show ?thesis by simp
  qed
next
  case (9 a st)
  from rmatch_Lazy_cases[OF "9.prems"] consider "m = st"
    | st' where "st' \<in> set (rmatch a st)" "length (rest st') < length (rest st)"
        "m \<in> set (rmatch (Lazy a) st')"
    by blast
  then show ?case
  proof cases
    case 1 then show ?thesis by simp
  next
    case 2
    from "9.IH"(2)[OF 2(1) 2(2) 2(3)] 2(2) show ?thesis by simp
  qed
qed (auto split: list.splits option.splits if_splits dest: rest_Cons_length)

lemma rmatch_consuming:
  "consuming r \<Longrightarrow> m \<in> set (rmatch r st) \<Longrightarrow> length (rest m) < length (rest st)"
proof (induction r arbitrary: m st)
  case (Seq a b)
  from Seq.prems(2) obtain st' where a: "st' \<in> set (rmatch a st)" and b: "m \<in> set (rmatch b st')"
    by auto
  from Seq.prems(1) have "consuming a \<or> consuming b" by simp
  then show ?case
  proof
    assume "consuming a"
    from Seq.IH(1)[OF this a] rmatch_rest_le[OF b] show ?thesis by simp
  next
    assume "consuming b"
    from Seq.IH(2)[OF this b] rmatch_rest_le[OF a] show ?thesis by simp
  qed
qed (auto split: list.splits if_splits dest: rest_Cons_length)

lemma search_in_rmatch:
  "search r p pr s = Some (b, m) \<Longrightarrow> m \<in> set (rmatch r b)"
  by (induction s arbitrary: p pr) (auto split: list.splits)

lemma execAll_total:
  "consuming r \<Longrightarrow> \<exists>ms. execAll r st = Some ms"
proof (induction r st rule: execAll.induct)
  case (1 r st)
  show ?case
  proof (cases "search r (pos st) (prev st) (rest st)")
    case None
    then show ?thesis by (subst execAll.simps) simp
  next
    case (Some bm)
    obtain b m where bm: "bm = (b, m)" by (cases bm)
    from Some bm have lt: "length (rest m) < length (rest b)"
      using rmatch_consuming[OF "1.prems" search_in_rmatch] by blast
    from "1.IH"[OF Some[unfolded bm] refl lt "1.prems"] obtain ms
      where "execAll r (MState (pos m) (prev m) (rest m) None) = Some ms" by blast
    with Some bm lt show ?thesis by (subst execAll.simps) simp
  qed
qed

lemma matches_total: "consuming r \<Longrightarrow> \<exists>ms. matches r content = Some ms"
  unfolding matches_def by (rule execAll_total)

lemma consuming_patterns:
  "consuming functionDeclPattern" "consuming arrowFunctionPattern" "consuming methodPattern"
  "consuming classPattern" "consuming pyFunctionPattern" "consuming pyClassPattern"
  "consuming goFunctionPattern"
  by (simp_all add: functionDeclPattern_def arrowFunctionPattern_def methodPattern_def
      classPattern_def pyFunctionPattern_def pyClassPattern_def goFunctionPattern_def many1_def)


lemma functionPatternLoop_total:
  "\<forall>p \<in> set ps. consuming p \<Longrightarrow>
   \<exists>es. functionPatternLoop w content lp fp rp ps entities = Some es"
proof (induction ps arbitrary: entities)
  case Nil
  then show ?case by simp
next
  case (Cons p ps)
  from Cons.prems have "consuming p" by simp
  then obtain ms where "matches p content = Some ms" using matches_total by blast
  moreover from Cons.prems have "\<forall>p \<in> set ps. consuming p" by simp
  ultimately show ?case using Cons.IH by simp
qed

lemma findFunctions_total: "\<exists>es. findFunctions w content fp rp entities = Some es"
  unfolding findFunctions_def
  by (rule functionPatternLoop_total) (simp add: functionPatterns_def consuming_patterns)

lemma findClasses_total: "\<exists>r. findClasses w content fp rp entities = Some r"
proof -
  obtain ms where "matches classPattern content = Some ms"
    using matches_total[OF consuming_patterns(4)] by blast
  then show ?thesis by (simp add: findClasses_def Let_def)
qed

lemma JSParser_parseFile_total: "\<exists>r. JSParser_parseFile w f b = Some r"
proof -
  obtain es where "findFunctions w (readFileContent w f) f (relativePathOf w f b) [] = Some es"
    using findFunctions_total by blast
  then show ?thesis using findClasses_total by (simp add: JSParser_parseFile_def Let_def)
qed

section \<open>The binary search finds the line of an offset\<close>

lemma splitLines_nonempty: "splitLines s \<noteq> []"
  by (induction s) (auto split: list.splits)

lemma length_splitLines: "length (splitLines s) = Suc (length (filter (\<lambda>c. c = CHR 0x0A) s))"
  by (induction s) (auto split: list.splits simp: splitLines_nonempty)

lemma length_linePositionsFrom: "length (linePositionsFrom b ls) = length ls"
  by (induction ls arbitrary: b) auto

lemma linePositionsFrom_ge: "x \<in> set (linePositionsFrom b ls) \<Longrightarrow> b \<le> x"
proof (induction ls arbitrary: b)
  case Nil
  then show ?case by simp
next
  case (Cons l ls)
  from Cons.prems Cons.IH[of "b + length l + 1"] show ?case by auto
qed

lemma linePositionsFrom_increasing: "sorted_wrt (<) (linePositionsFrom b ls)"
proof (induction ls arbitrary: b)
  case Nil
  then show ?case by simp
next
  case (Cons l ls)
  have "b < x" if "x \<in> set (linePositionsFrom (b + length l + 1) ls)" for x
    using linePositionsFrom_ge[OF that] by simp
  with Cons.IH show ?case by simp
qed

lemma newlinesBefore_simps:
  "newlinesBefore s 0 = 0"
  "newlinesBefore [] p = 0"
  "newlinesBefore (c # cs) (Suc p) = (if c = CHR 0x0A then Suc (newlinesBefore cs p) else newlinesBefore cs p)"
  by (simp_all add: newlinesBefore_def)

lemma newlinesBefore_less: "newlinesBefore s p < length (splitLines s)"
proof -
  have "length (filter (\<lambda>c. c = CHR 0x0A) (take p s)) \<le> length (filter (\<lambda>c. c = CHR 0x0A) s)"
    by (metis append_take_drop_id filter_append length_append le_add1)
  then show ?thesis by (simp add: newlinesBefore_def length_splitLines)
qed

lemma line_bracket:
  "p \<le> length s \<Longrightarrow>
   linePositionsFrom b (splitLines s) ! newlinesBefore s p \<le> b + p
   \<and> (Suc (newlinesBefore s p) < length (splitLines s) \<longrightarrow>
        b + p < linePositionsFrom b (splitLines s) ! Suc (newlinesBefore s p))"
proof (induction s arbitrary: b p)
  case Nil
  then show ?case by (simp add: newlinesBefore_simps)
next
  case (Cons c cs)
  obtain l ls where sl: "splitLines cs = l # ls"
    using splitLines_nonempty[of cs] by (cases "splitLines cs") auto
  show ?case
  proof (cases p)
    case 0
    then show ?thesis
      by (cases ls) (auto simp: newlinesBefore_simps sl)
  next
    case (Suc q)
    with Cons.prems have q: "q \<le> length cs" by simp
    note IH = Cons.IH[OF q, of "Suc b", unfolded sl]
    show ?thesis
    proof (cases "c = CHR 0x0A")
      case True
      with IH Suc show ?thesis
        by (simp add: newlinesBefore_simps sl)
    next
      case False
      with IH Suc show ?thesis
        by (cases "newlinesBefore cs q") (auto simp: newlinesBefore_simps sl)
    qed
  qed
qed

lemma at_nth: "0 \<le> i \<Longrightarrow> i < int (length xs) \<Longrightarrow> at xs i = Some (xs ! nat i)"
  by (simp add: at_def)

lemma binarySearch_finds:
  assumes "sorted_wrt (<) lp"
    and "0 \<le> low" and "high < int (length lp)"
    and "low \<le> int k" and "int k \<le> high"
    and "lp ! k \<le> p" and "Suc k < length lp \<longrightarrow> p < lp ! Suc k"
  shows "binarySearch lp p low high = Some (int k)"
  using assms
proof (induction lp p low high rule: binarySearch.induct)
  case (1 lp p low high)
  define mid where "mid = (low + high) div 2"
  from "1.prems" have lh: "low \<le> high" by simp
  then have m: "low \<le> mid" "mid \<le> high" by (simp_all add: mid_def)
  with "1.prems" have mr: "0 \<le> mid" "mid < int (length lp)" by simp_all
  then have am: "at lp mid = Some (lp ! nat mid)" by (rule at_nth)
  from mr have nm: "nat mid < length lp" by (simp add: nat_less_iff)
  from "1.prems" have kl: "k < length lp" by simp
  consider "nat mid = k" | "nat mid < k" | "k < nat mid" by linarith
  then show ?case
  proof cases
    case 1
    then have mk: "mid = int k" using mr by simp
    have "mid = int (length lp) - 1 \<or> jsGt (at lp (mid + 1)) p"
    proof (cases "Suc k < length lp")
      case True
      with mk have "at lp (mid + 1) = Some (lp ! Suc k)" by (simp add: at_def nat_add_distrib)
      with True "1.prems" show ?thesis by simp
    next
      case False
      with kl mk show ?thesis by simp
    qed
    with am mk "1.prems" lh show ?thesis
      by (subst binarySearch.simps) (simp add: mid_def[symmetric] Let_def)
  next
    case 2
    then have lt: "lp ! nat mid < lp ! k"
      using sorted_wrt_nth_less[OF "1.prems"(1) 2 kl] by simp
    from 2 kl have s: "Suc (nat mid) < length lp" by simp
    have "lp ! Suc (nat mid) \<le> lp ! k"
    proof (cases "Suc (nat mid) = k")
      case True then show ?thesis by simp
    next
      case False
      with 2 have "Suc (nat mid) < k" by simp
      from sorted_wrt_nth_less[OF "1.prems"(1) this kl] show ?thesis by simp
    qed
    with "1.prems" have le: "lp ! Suc (nat mid) \<le> p" by simp
    from mr s have am1: "at lp (mid + 1) = Some (lp ! Suc (nat mid))"
      by (simp add: at_def nat_add_distrib)
    have c1: "\<not> (jsLe (at lp mid) p \<and> (mid = int (length lp) - 1 \<or> jsGt (at lp (mid + 1)) p))"
      using am1 le s mr by auto
    have c2: "\<not> jsGt (at lp mid) p" using am lt "1.prems" by simp
    have "binarySearch lp p (mid + 1) high = Some (int k)"
      using "1.IH"(2)[OF lh mid_def c1 c2] "1.prems" 2 mr by simp
    with lh c1 c2 show ?thesis
      by (subst binarySearch.simps) (auto simp add: mid_def[symmetric] Let_def)
  next
    case 3
    then have sk: "Suc k < length lp" using nm by simp
    have "lp ! Suc k \<le> lp ! nat mid"
    proof (cases "Suc k = nat mid")
      case True then show ?thesis by simp
    next
      case False
      with 3 have "Suc k < nat mid" by simp
      from sorted_wrt_nth_less[OF "1.prems"(1) this nm] show ?thesis by simp
    qed
    with sk "1.prems" have gt: "p < lp ! nat mid" by simp
    have c1: "\<not> (jsLe (at lp mid) p \<and> (mid = int (length lp) - 1 \<or> jsGt (at lp (mid + 1)) p))"
      using am gt by simp
    have c2: "jsGt (at lp mid) p" using am gt by simp
    have "binarySearch lp p low (mid - 1) = Some (int k)"
      using "1.IH"(1)[OF lh mid_def c1 c2] "1.prems" 3 mr by simp
    with lh c1 c2 show ?thesis
      by (subst binarySearch.simps) (auto simp add: mid_def[symmetric] Let_def)
  qed
qed

lemma findLine_resolves:
  assumes "p \<le> length content"
  shows "findLine (computeLinePositions content) p = Some (int (newlinesBefore content p))"
proof -
  let ?lp = "computeLinePositions content"
  let ?k = "newlinesBefore content p"
  have len: "length ?lp = length (splitLines content)"
    by (simp add: computeLinePositions_def length_linePositionsFrom)
  have k: "?k < length ?lp" using newlinesBefore_less len by simp
  from line_bracket[OF assms, of 0] len
  have br: "?lp ! ?k \<le> p" "Suc ?k < length ?lp \<longrightarrow> p < ?lp ! Suc ?k"
    by (simp_all add: computeLinePositions_def)
  show ?thesis
    unfolding findLine_def
    by (rule binarySearch_finds[OF _ _ _ _ _ br])
       (use k in \<open>simp_all add: computeLinePositions_def linePositionsFrom_increasing\<close>)
qed


lemma functionLineNumber_resolves:
  "p \<le> length content \<Longrightarrow>
   functionLineNumber (computeLinePositions content) p = int (newlinesBefore content p) + 1"
  by (simp add: functionLineNumber_def findLine_resolves)

section \<open>Line numbers (C1)\<close>

text \<open>
  Claim C1. Every record of the script-family extractor carries the 1-based number of the
  line on which its declaration begins; a file with \<open>function calculateTotal(items) {\<close>
  on line 4 and \<open>class ShoppingCart {\<close> on line 13 yields calculateTotal at line 4 and
  ShoppingCart at line 13. The code gives ShoppingCart line 1: \<open>findClasses\<close> fills its
  table of line offsets only when no function was found before (its comment takes the
  table of \<open>findFunctions\<close> to be still there, but that one is local to
  \<open>findFunctions\<close>), so the search runs on the empty table and the line stays at its
  initial value. With the table filled, a class that starts its line is still placed one
  line early, because the match begins at the line break before the keyword.
\<close>

theorem class_line_not_resolved:
  "splitLines cartScript ! 3 = ''function calculateTotal(items) {''
   \<and> splitLines cartScript ! 12 = ''class ShoppingCart {''
   \<and> JSParser_parseFile cartProject ''/p/cart.js'' ''/p''
       = Some (Inr [cartEntity ''calculateTotal'' 4 Function,
                    cartEntity ''calculateTotal'' 4 Function,
                    cartEntity ''ShoppingCart'' 1 Class])
   \<and> findClasses cartProject secondLineClass ''/p/cart.js'' ''cart.js'' []
       = Some (Inr [cartEntity ''Foo'' 1 Class])"
  by code_simp

section \<open>The traversal timeout (C2)\<close>

text \<open>
  Claim C2 says that a traversal that does not end within its budget makes the scan
  return a distinct TraversalTimeout failure. The timer does reject the race with its own
  error, but the \<open>catch\<close> of \<open>getFilesInDirectory\<close> takes it like any other error and
  returns the empty file list; the scan then returns the empty list, as a success.
\<close>

theorem traversal_timeout_counterexample:
  "getFilesInDirectory_try (memoryPlatform [(''/p/a.js'', ''function f() {}'')] Pending) ''/p'' 3
     = Inl (Error ''File search timed out after 20 seconds'')
   \<and> getFunctions (memoryPlatform [(''/p/a.js'', ''function f() {}'')] Pending) ''/p'' 3
     = Some (Inr [])
   \<and> getClasses (memoryPlatform [(''/p/a.js'', ''function f() {}'')] Pending) ''/p'' 3
     = Some (Inr [])"
  by (simp add: getFilesInDirectory_def getFilesInDirectory_try_def raceWithTimeout_def
      getFunctions_def getClasses_def analyze_try_def catchAll_def Let_def memoryPlatform_def)


text \<open>
  Claim C2 as amended. If the traversal does not complete within its budget of 20 seconds,
  the collector absorbs the timeout and returns the empty file list, and \<open>getFunctions\<close>
  and \<open>getClasses\<close> return the empty list as a success; they do not hang, and no timeout
  failure reaches the caller.
\<close>

theorem traversal_timeout_absorbed:
  assumes "glob w (searchPatterns (path_resolve w dirPath))
             (ignorePatterns w (path_resolve w dirPath)) = Pending"
  shows "getFilesInDirectory w (path_resolve w dirPath) maxDepth = Inr []
    \<and> getFunctions w dirPath maxDepth = Some (Inr [])
    \<and> getClasses w dirPath maxDepth = Some (Inr [])"
  using assms
  by (simp add: getFilesInDirectory_def getFilesInDirectory_try_def raceWithTimeout_def
      getFunctions_def getClasses_def analyze_try_def catchAll_def Let_def)

theorem traversal_timeout_absorbed_witness:
  "glob (memoryPlatform [] Pending) (searchPatterns (path_resolve (memoryPlatform [] Pending) ''/p''))
     (ignorePatterns (memoryPlatform [] Pending) (path_resolve (memoryPlatform [] Pending) ''/p''))
     = Pending
   \<and> getFunctions (memoryPlatform [] Pending) ''/p'' 3 = Some (Inr [])
   \<and> getClasses (memoryPlatform [] Pending) ''/p'' 3 = Some (Inr [])"
proof -
  have g: "glob (memoryPlatform [] Pending) ps ig = Pending" for ps ig
    by (simp add: memoryPlatform_def)
  from traversal_timeout_absorbed[of "memoryPlatform [] Pending" "''/p''" 3, OF g] g
  show ?thesis by simp
qed

section \<open>The depth bound (C3)\<close>

text \<open>
  Claim C3. The collector is documented to search at most \<open>maxDepth\<close> directory levels
  below the root. The parameter is never read: the patterns handed to \<open>glob\<close> are
  \<open>root/**/*.ext\<close>, whose \<open>**\<close> spans any number of directories, and no depth option is
  passed. With the bound 1 the file \<open>/p/a/b/x.js\<close>, two directories below \<open>/p\<close>, is
  collected and its function reported, exactly as with the bound 3.
\<close>

theorem maxDepth_not_read:
  "getFilesInDirectory w dirPath maxDepth = getFilesInDirectory w dirPath maxDepth'
   \<and> getFunctions w dirPath maxDepth = getFunctions w dirPath maxDepth'
   \<and> getClasses w dirPath maxDepth = getClasses w dirPath maxDepth'
   \<and> getFilesInDirectory deepTree ''/p'' 1 = Inr [''/p/a/b/x.js'']
   \<and> getFunctions deepTree ''/p'' 1 = Some (Inr [deepEntity, deepEntity])"
proof -
  have "getFunctions deepTree ''/p'' 1 = Some (Inr [deepEntity, deepEntity])"
    by code_simp
  moreover have "getFilesInDirectory deepTree ''/p'' 1 = Inr [''/p/a/b/x.js'']"
    by code_simp
  ultimately show ?thesis
    by (simp add: getFilesInDirectory_def getFilesInDirectory_try_def getFunctions_def
        getClasses_def analyze_try_def)
qed

section \<open>Duplicate records (C4)\<close>

text \<open>
  Claim C4. No two records of a scan share name, kind and relative path, also when more
  than one pattern matches the same declaration. \<open>findClasses\<close> keeps the set
  \<open>foundClasses\<close> for this; \<open>findFunctions\<close> keeps nothing of the kind, and a plain
  function declaration matches both the declaration pattern and the method pattern: it is
  reported twice.
\<close>

theorem function_reported_twice:
  "getFunctions singleFunction ''/p'' 3 = Some (Inr [fooEntity, fooEntity])
   \<and> \<not> distinct (map (\<lambda>e. (name e, type e, relativePath e)) [fooEntity, fooEntity])"
  by code_simp

section \<open>Comment lines and string literals (C5)\<close>

lemma rmatch_pos:
  "m \<in> set (rmatch r st) \<Longrightarrow> pos m + length (rest m) = pos st + length (rest st)"
proof (induction r st arbitrary: m rule: rmatch.induct)
  case (6 a b st)
  from "6.prems" obtain st' where a: "st' \<in> set (rmatch a st)" and b: "m \<in> set (rmatch b st')"
    by auto
  from "6.IH"(1)[OF a] "6.IH"(2)[OF a b] show ?case by simp
next
  case (8 a st)
  from rmatch_Star_cases[OF "8.prems"] consider "m = st"
    | st' where "st' \<in> set (rmatch a st)" "length (rest st') < length (rest st)"
        "m \<in> set (rmatch (Star a) st')"
    by blast
  then show ?case
  proof cases
    case 1 then show ?thesis by simp
  next
    case 2
    from "8.IH"(2)[OF 2(1) 2(2) 2(3)] "8.IH"(1)[OF 2(1)] show ?thesis by simp
  qed
next
  case (9 a st)
  from rmatch_Lazy_cases[OF "9.prems"] consider "m = st"
    | st' where "st' \<in> set (rmatch a st)" "length (rest st') < length (rest st)"
        "m \<in> set (rmatch (Lazy a) st')"
    by blast
  then show ?case
  proof cases
    case 1 then show ?thesis by simp
  next
    case 2
    from "9.IH"(2)[OF 2(1) 2(2) 2(3)] "9.IH"(1)[OF 2(1)] show ?thesis by simp
  qed
qed (auto split: list.splits option.splits if_splits dest: rest_Cons_length)

lemma search_pos:
  "search r p pr s = Some (b, m) \<Longrightarrow> pos b + length (rest b) = p + length s"
  by (induction s arbitrary: p pr) (auto split: list.splits)

lemma execAll_index:
  "execAll r st = Some ms \<Longrightarrow> m \<in> set ms \<Longrightarrow> index m \<le> pos st + length (rest st)"
proof (induction r st arbitrary: ms rule: execAll.induct)
  case (1 r st)
  show ?case
  proof (cases "search r (pos st) (prev st) (rest st)")
    case None
    with "1.prems" show ?thesis by (subst (asm) execAll.simps) simp
  next
    case (Some bm)
    obtain b e where bm: "bm = (b, e)" by (cases bm)
    note s = Some[unfolded bm]
    from "1.prems"(1) s obtain ms' where lt: "length (rest e) < length (rest b)"
      and rec: "execAll r (MState (pos e) (prev e) (rest e) None) = Some ms'"
      and ms: "ms = \<lparr>index = pos b, group1 = (case cap e of None \<Rightarrow> [] | Some g \<Rightarrow> g)\<rparr> # ms'"
      by (subst (asm) execAll.simps) (auto split: if_splits)
    have pb: "pos b + length (rest b) = pos st + length (rest st)"
      using search_pos[OF s] .
    have pe: "pos e + length (rest e) = pos b + length (rest b)"
      using rmatch_pos[OF search_in_rmatch[OF s]] .
    from "1.prems"(2) ms consider "index m = pos b" | "m \<in> set ms'" by auto
    then show ?thesis
    proof cases
      case 1
      with pb show ?thesis by simp
    next
      case 2
      from "1.IH"[OF s refl lt rec 2] pe pb show ?thesis by simp
    qed
  qed
qed

lemma matches_index:
  "matches r content = Some ms \<Longrightarrow> m \<in> set ms \<Longrightarrow> index m \<le> length content"
  using execAll_index[of r "MState 0 None content None" ms m] by (simp add: matches_def)

lemma classLineNumber_resolves:
  "p \<le> length content \<Longrightarrow>
   classLineNumber (computeLinePositions content) p = int (newlinesBefore content p)"
  by (simp add: classLineNumber_def findLine_resolves)

lemma at_lineContaining:
  "at (splitLines content) (int (newlinesBefore content p)) = Some (lineContaining content p)"
  using newlinesBefore_less[of content p] by (simp add: at_def lineContaining_def)

lemma classMatches_drops_rejected:
  assumes "\<forall>m \<in> set ms. index m \<le> length content"
  shows "classMatches w (computeLinePositions content) (splitLines content) fp rp ms found es
    = classMatches w (computeLinePositions content) (splitLines content) fp rp
        (filter (\<lambda>m. \<not> notRealClassLine (lineContaining content (index m))) ms) found es"
  using assms
proof (induction ms arbitrary: found es)
  case Nil
  then show ?case by simp
next
  case (Cons m ms)
  from Cons.prems have i: "index m \<le> length content" and r: "\<forall>m \<in> set ms. index m \<le> length content"
    by simp_all
  note IH = Cons.IH[OF r]
  show ?case
    by (simp add: Let_def classLineNumber_resolves[OF i] at_lineContaining IH)
qed

text \<open>
  Claim C5 says that a candidate class match on a comment line, or whose \<open>class\<close> lies
  inside a quoted string literal, produces no Class record. The test on the line knows a
  string literal only by \<open>"class\<close> or \<open>'class\<close>, the quote directly before the word, and
  gives way as soon as the line holds \<open>class\<close> followed by a blank: a literal with a
  blank before the word is reported as a class.
\<close>

theorem class_in_string_counterexample:
  \<open>blankBeforeClass = ''const s = " class Bar "''
   \<and> JSParser_parseFile blankBeforeClassProject ''/p/a.js'' ''/p''
       = Some (Inr [\<lparr>name = ''Bar'', line = 1, fileName = ''a.js'', relativePath = ''a.js'',
                     type = Class\<rparr>])\<close>
  by code_simp

text \<open>
  Claim C5 as amended. In a script-family file in which no function was found, a candidate
  class match leaves no trace in the result when the line on which the match starts is a
  comment line (its trimmed text starts with \<open>//\<close>) or holds \<open>"class\<close> or \<open>'class\<close> and
  no \<open>class\<close> followed by a blank: the records are those of the loop run over the other
  candidates alone. So \<open>// class Foo\<close> yields no record; and in \<open>const s = "class Bar"\<close>
  the word, coming directly after the quote, is not a candidate at all.
\<close>

theorem rejected_lines_yield_no_class:
  assumes "findFunctions w (readFileContent w f) f (relativePathOf w f b) [] = Some []"
    and "matches classPattern (readFileContent w f) = Some ms"
  shows "JSParser_parseFile w f b
    = Some (classMatches w (computeLinePositions (readFileContent w f))
              (splitLines (readFileContent w f)) f (relativePathOf w f b)
              (filter (\<lambda>m. \<not> notRealClassLine (lineContaining (readFileContent w f) (index m))) ms)
              {} [])"
proof -
  from assms(2) have "\<forall>m \<in> set ms. index m \<le> length (readFileContent w f)"
    using matches_index by blast
  from classMatches_drops_rejected[OF this] assms show ?thesis
    by (simp add: JSParser_parseFile_def findClasses_def Let_def)
qed

theorem rejected_lines_yield_no_class_witness:
  "findFunctions commentAndStringProject (readFileContent commentAndStringProject ''/p/a.js'')
     ''/p/a.js'' (relativePathOf commentAndStringProject ''/p/a.js'' ''/p'') [] = Some []
   \<and> matches classPattern (readFileContent commentAndStringProject ''/p/a.js'')
       = Some [\<lparr>index = 2, group1 = ''Foo''\<rparr>]
   \<and> notRealClassLine (lineContaining (readFileContent commentAndStringProject ''/p/a.js'') 2)
   \<and> JSParser_parseFile commentAndStringProject ''/p/a.js'' ''/p'' = Some (Inr [])"
proof -
  have nf: "findFunctions commentAndStringProject
              (readFileContent commentAndStringProject ''/p/a.js'')
              ''/p/a.js'' (relativePathOf commentAndStringProject ''/p/a.js'' ''/p'') [] = Some []"
    by code_simp
  have ms: "matches classPattern (readFileContent commentAndStringProject ''/p/a.js'')
            = Some [\<lparr>index = 2, group1 = ''Foo''\<rparr>]"
    by code_simp
  have rj: "notRealClassLine (lineContaining (readFileContent commentAndStringProject ''/p/a.js'') 2)"
    by code_simp
  from rejected_lines_yield_no_class[OF nf ms] rj nf ms show ?thesis by simp
qed

section \<open>Ignore rules (C6)\<close>

lemma endsWith_last: "endsWith s [c] = (s \<noteq> [] \<and> last s = c)"
proof (cases s rule: rev_cases)
  case Nil
  then show ?thesis by (simp add: endsWith_def)
next
  case (snoc ys y)
  then show ?thesis by (auto simp: endsWith_def)
qed

lemma strip_step:
  "(if startsWith p ''/'' then substring p 1 else p) = stripLeadingSlash p"
  by (cases p) (auto simp: startsWith_def substring_def)

lemma cover_step:
  "(if endsWith q ''/'' then q @ ''**'' else q) = coverSubtree q"
  by (simp add: coverSubtree_def endsWith_last)

lemma rooted_step:
  "(if startsWith r ''!'' then ''!'' @ root @ ''/'' @ substring r 1 else root @ ''/'' @ r)
   = globText (rootedRule root r)"
  by (cases r) (auto simp: startsWith_def substring_def)

lemma convertPattern_translateRule:
  "convertPattern root p = globText (translateRule root p)"
  unfolding convertPattern_def translateRule_def Let_def strip_step cover_step rooted_step ..

lemma replaceBackslashes_idem: "replaceBackslashes (replaceBackslashes s) = replaceBackslashes s"
  by (simp add: replaceBackslashes_def)

text \<open>
  Claim C6. For every list of ignore-file patterns and every base path, the translator maps
  each pattern, in the original order, as specified: a single leading \<open>/\<close> is stripped, a
  pattern ending in \<open>/\<close> gets the recursive wildcard \<open>**\<close>, a pattern starting with
  \<open>!\<close> becomes a negation anchored at the root (\<open>!root/rest\<close>), every other pattern
  becomes the exclusion \<open>root/pattern\<close>; and the eight default exclusions follow all the
  user rules in the ignore list handed to \<open>glob\<close>. The root is the base path with its
  backslashes turned into slashes.
\<close>

theorem ignore_rules_translated:
  "convertGitignorePatternsToGlob patterns basePath
     = map (\<lambda>p. globText (translateRule (replaceBackslashes basePath) p)) patterns
   \<and> ignorePatterns w dirPath
     = map (\<lambda>p. globText (translateRule (replaceBackslashes dirPath) p)) (readGitignore w dirPath)
       @ map (\<lambda>d. replaceBackslashes dirPath @ ''/'' @ d @ ''/**'')
           [''node_modules'', ''dist'', ''.git'', ''coverage'', ''build'', ''.cache'', ''.vscode'',
            ''.idea'']
   \<and> getFilesInDirectory_try w dirPath maxDepth
     = raceWithTimeout (glob w (searchPatterns dirPath) (ignorePatterns w dirPath))"
  by (simp add: convertGitignorePatternsToGlob_def ignorePatterns_def commonIgnores_def
      convertPattern_translateRule replaceBackslashes_idem getFilesInDirectory_try_def Let_def)

section \<open>The ignore file is missing or unreadable (C7)\<close>

text \<open>
  Claim C7. If the project ignore file is missing, or reading it fails for any reason, the
  ignore-rule reader returns the empty rule list and the scan goes on with the default
  exclusions only: the list handed to \<open>glob\<close> is \<open>commonIgnores\<close>, and the collector
  returns what \<open>glob\<close> finds. Nothing of the failure reaches the caller.
\<close>

theorem ignore_file_unavailable:
  assumes "\<not> existsSync w (path_join w dirPath ''.gitignore'')
           \<or> (\<exists>e. readFileSync w (path_join w dirPath ''.gitignore'') = Inl e)"
  shows "readGitignore w dirPath = []
    \<and> ignorePatterns w dirPath = commonIgnores (replaceBackslashes dirPath)
    \<and> getFilesInDirectory w dirPath maxDepth
        = (case glob w (searchPatterns dirPath) (commonIgnores (replaceBackslashes dirPath)) of
             Resolved files \<Rightarrow> Inr files
           | Rejected e \<Rightarrow> Inr []
           | Pending \<Rightarrow> Inr [])"
proof -
  from assms have r: "readGitignore w dirPath = []"
    by (auto simp: readGitignore_def Let_def)
  then have i: "ignorePatterns w dirPath = commonIgnores (replaceBackslashes dirPath)"
    by (simp add: ignorePatterns_def Let_def convertGitignorePatternsToGlob_def)
  show ?thesis
    by (simp add: r i getFilesInDirectory_def getFilesInDirectory_try_def raceWithTimeout_def
        split: settled.splits)
qed

theorem ignore_file_unavailable_witness:
  "existsSync unreadableIgnoreFile (path_join unreadableIgnoreFile ''/p'' ''.gitignore'')
   \<and> readFileSync unreadableIgnoreFile (path_join unreadableIgnoreFile ''/p'' ''.gitignore'')
       = Inl (Error ''EACCES: permission denied'')
   \<and> readGitignore unreadableIgnoreFile ''/p'' = []
   \<and> getFilesInDirectory unreadableIgnoreFile ''/p'' 3 = Inr [''/p/a.js'']"
proof -
  have rd: "readFileSync unreadableIgnoreFile (path_join unreadableIgnoreFile ''/p'' ''.gitignore'')
            = Inl (Error ''EACCES: permission denied'')"
    by (simp add: unreadableIgnoreFile_def)
  have ex: "existsSync unreadableIgnoreFile (path_join unreadableIgnoreFile ''/p'' ''.gitignore'')"
    by (simp add: unreadableIgnoreFile_def memoryPlatform_def)
  have gl: "glob unreadableIgnoreFile ps ig = Resolved [''/p/a.js'']" for ps ig
    by (simp add: unreadableIgnoreFile_def memoryPlatform_def)
  from ignore_file_unavailable[of unreadableIgnoreFile "''/p''" 3] rd ex gl
  show ?thesis by simp
qed

section \<open>Files that cannot be read (C8)\<close>








section \<open>Reserved words (C9)\<close>

lemma functionMatches_reserved:
  "e \<in> set (functionMatches w lp fp rp ms entities) \<Longrightarrow>
   e \<in> set entities \<or> (type e = Function \<and> name e \<notin> reservedWords)"
proof (induction ms arbitrary: entities)
  case Nil
  then show ?case by simp
next
  case (Cons m ms)
  show ?case
  proof (cases "group1 m \<in> reservedWords")
    case True
    with Cons.prems have "e \<in> set (functionMatches w lp fp rp ms entities)"
      by (simp add: Let_def)
    then show ?thesis by (rule Cons.IH)
  next
    case False
    let ?new = "\<lparr>name = group1 m, line = functionLineNumber lp (index m),
                 fileName = path_basename w fp, relativePath = rp, type = Function\<rparr>"
    from False Cons.prems have "e \<in> set (functionMatches w lp fp rp ms (entities @ [?new]))"
      by (simp add: Let_def)
    from Cons.IH[OF this] False show ?thesis by auto
  qed
qed

lemma functionPatternLoop_reserved:
  "functionPatternLoop w content lp fp rp ps entities = Some es \<Longrightarrow> e \<in> set es \<Longrightarrow>
   e \<in> set entities \<or> (type e = Function \<and> name e \<notin> reservedWords)"
proof (induction ps arbitrary: entities)
  case Nil
  then show ?case by simp
next
  case (Cons p ps)
  from Cons.prems(1) obtain ms where ms: "matches p content = Some ms"
    and rec: "functionPatternLoop w content lp fp rp ps (functionMatches w lp fp rp ms entities) = Some es"
    by (auto split: option.splits)
  from Cons.IH[OF rec Cons.prems(2)] functionMatches_reserved show ?case by blast
qed

lemma classMatches_adds_classes:
  "classMatches w lp lns fp rp ms found entities = Inr es \<Longrightarrow> e \<in> set es \<Longrightarrow>
   e \<in> set entities \<or> type e = Class"
proof (induction ms arbitrary: found entities)
  case Nil
  then show ?case by simp
next
  case (Cons m ms)
  from Cons.prems Cons.IH show ?case
    by (fastforce simp: Let_def split: if_splits option.splits)
qed

text \<open>
  Claim C9. For every file text, the script-family extractor never emits a Function record
  whose name is one of the reserved control-flow words \<open>if\<close>, \<open>for\<close>, \<open>while\<close>,
  \<open>switch\<close>, \<open>catch\<close>, whichever of the three function patterns produced the
  candidate. The test \<open>reservedWords.has(functionName)\<close> is the first statement of the
  loop body and the loop body is shared by the three patterns; \<open>findClasses\<close> adds Class
  records only. That the parser returns at all is \<open>JSParser_parseFile_total\<close>.
\<close>

theorem reserved_words_excluded:
  assumes "JSParser_parseFile w filePath basePath = Some (Inr entities)"
    and "e \<in> set entities" and "type e = Function"
  shows "name e \<notin> {''if'', ''for'', ''while'', ''switch'', ''catch''}"
proof -
  let ?content = "readFileContent w filePath"
  let ?rel = "relativePathOf w filePath basePath"
  from assms(1) obtain fs where fs: "findFunctions w ?content filePath ?rel [] = Some fs"
    and cs: "findClasses w ?content filePath ?rel fs = Some (Inr entities)"
    by (auto simp: JSParser_parseFile_def Let_def split: option.splits)
  from cs obtain lp ms where "classMatches w lp (splitLines ?content) filePath ?rel ms {} fs = Inr entities"
    by (auto simp: findClasses_def Let_def split: option.splits)
  from classMatches_adds_classes[OF this assms(2)] assms(3) have "e \<in> set fs" by auto
  with fs functionPatternLoop_reserved[of w ?content _ filePath ?rel functionPatterns "[]" fs e]
  have "name e \<notin> reservedWords" by (auto simp: findFunctions_def)
  then show ?thesis by (simp add: reservedWords_def)
qed


theorem reserved_words_excluded_witness:
  "JSParser_parseFile (memoryPlatform [(''/p/a.js'', guardedScript)] Pending) ''/p/a.js'' ''/p''
     = Some (Inr [runEntity, runEntity])
   \<and> runEntity \<in> set [runEntity, runEntity] \<and> type runEntity = Function
   \<and> name runEntity \<notin> {''if'', ''for'', ''while'', ''switch'', ''catch''}"
proof -
  have ev: "JSParser_parseFile (memoryPlatform [(''/p/a.js'', guardedScript)] Pending)
              ''/p/a.js'' ''/p''
            = Some (Inr [runEntity, runEntity])"
    by code_simp
  have ty: "type runEntity = Function" by (simp add: runEntity_def)
  from reserved_words_excluded[OF ev _ ty] ev ty show ?thesis by simp
qed

section \<open>The analyzers always return a list (C10)\<close>

lemma plainFindFunctions_total:
  "consuming p \<Longrightarrow> \<exists>es. plainFindFunctions p w content fp rp entities = Some es"
  using matches_total[of p content] by (auto simp: plainFindFunctions_def)

lemma pyFindClasses_total: "\<exists>es. pyFindClasses w content fp rp entities = Some es"
  using matches_total[OF consuming_patterns(6), of content] by (auto simp: pyFindClasses_def)

lemma PythonParser_parseFile_total: "\<exists>r. PythonParser_parseFile w f b = Some r"
proof -
  obtain es where "plainFindFunctions pyFunctionPattern w (readFileContent w f) f
                     (relativePathOf w f b) [] = Some es"
    using plainFindFunctions_total[OF consuming_patterns(5)] by blast
  then show ?thesis
    using pyFindClasses_total[of w "readFileContent w f" f "relativePathOf w f b" es]
    by (auto simp: PythonParser_parseFile_def Let_def)
qed

lemma GoParser_parseFile_total: "\<exists>r. GoParser_parseFile w f b = Some r"
  using plainFindFunctions_total[OF consuming_patterns(7)]
  by (simp add: GoParser_parseFile_def Let_def)

lemma parseFile_total: "\<exists>r. parseFile parser w f b = Some r"
  by (cases parser)
     (simp_all add: JSParser_parseFile_total PythonParser_parseFile_total GoParser_parseFile_total)

lemma analyzeFiles_total: "\<exists>r. analyzeFiles w root kind files found = Some r"
proof (induction files arbitrary: found)
  case Nil
  then show ?case by simp
next
  case (Cons f fs)
  show ?case
  proof (cases "getParserForFile w f")
    case None
    then show ?thesis using Cons.IH by simp
  next
    case (Some parser)
    obtain r where r: "parseFile parser w f root = Some r" using parseFile_total by blast
    show ?thesis
    proof (cases r)
      case (Inl e)
      with Some r show ?thesis by simp
    next
      case (Inr entities)
      with Some r Cons.IH show ?thesis by (simp add: Let_def)
    qed
  qed
qed

lemma catchAll_returns: "r = Some x \<Longrightarrow> \<exists>es. catchAll r = Some (Inr es)"
  by (cases x) (simp_all add: catchAll_def)

lemma analyze_try_total: "\<exists>x. analyze_try kind w dirPath maxDepth = Some x"
  using analyzeFiles_total by (simp add: analyze_try_def Let_def split: sum.splits)

text \<open>
  Claim C10. For every directory path and depth, \<open>getFunctions\<close> and \<open>getClasses\<close> return
  a list and never throw: each runs to its end; whatever is thrown inside the \<open>try\<close>
  block (by an extractor, or by the engine when the records of a file are spread into
  \<open>push\<close>) is caught and the empty list returned; and when the traversal fails or times
  out the result is the empty list.
\<close>

theorem analyzers_always_return:
  "\<exists>fs cs. getFunctions w dirPath maxDepth = Some (Inr fs)
      \<and> getClasses w dirPath maxDepth = Some (Inr cs)
      \<and> ((\<forall>files. glob w (searchPatterns (path_resolve w dirPath))
                     (ignorePatterns w (path_resolve w dirPath)) \<noteq> Resolved files)
           \<longrightarrow> fs = [] \<and> cs = [])
      \<and> ((\<exists>error. analyze_try Function w dirPath maxDepth = Some (Inl error)) \<longrightarrow> fs = [])
      \<and> ((\<exists>error. analyze_try Class w dirPath maxDepth = Some (Inl error)) \<longrightarrow> cs = [])"
proof -
  obtain x where x: "analyze_try Function w dirPath maxDepth = Some x"
    using analyze_try_total by blast
  obtain y where y: "analyze_try Class w dirPath maxDepth = Some y"
    using analyze_try_total by blast
  from catchAll_returns[OF x] obtain fs where fs: "getFunctions w dirPath maxDepth = Some (Inr fs)"
    by (auto simp: getFunctions_def)
  from catchAll_returns[OF y] obtain cs where cs: "getClasses w dirPath maxDepth = Some (Inr cs)"
    by (auto simp: getClasses_def)
  have "fs = [] \<and> cs = []"
    if "\<forall>files. glob w (searchPatterns (path_resolve w dirPath))
                  (ignorePatterns w (path_resolve w dirPath)) \<noteq> Resolved files"
  proof -
    from that have "getFilesInDirectory w (path_resolve w dirPath) maxDepth = Inr []"
      by (auto simp: getFilesInDirectory_def getFilesInDirectory_try_def raceWithTimeout_def
          split: settled.splits)
    with fs cs show ?thesis
      by (simp add: getFunctions_def getClasses_def analyze_try_def catchAll_def Let_def)
  qed
  moreover have "fs = []" if "\<exists>error. analyze_try Function w dirPath maxDepth = Some (Inl error)"
    using that fs by (auto simp: getFunctions_def catchAll_def)
  moreover have "cs = []" if "\<exists>error. analyze_try Class w dirPath maxDepth = Some (Inl error)"
    using that cs by (auto simp: getClasses_def catchAll_def)
  ultimately show ?thesis using fs cs by blast
qed

theorem analyzers_always_return_witness:
  "(\<forall>files. glob (memoryPlatform [] (Rejected (Error ''EACCES'')))
               (searchPatterns (path_resolve (memoryPlatform [] (Rejected (Error ''EACCES''))) ''/p''))
               (ignorePatterns (memoryPlatform [] (Rejected (Error ''EACCES'')))
                  (path_resolve (memoryPlatform [] (Rejected (Error ''EACCES''))) ''/p''))
             \<noteq> Resolved files)
   \<and> getFunctions (memoryPlatform [] (Rejected (Error ''EACCES''))) ''/p'' 3 = Some (Inr [])
   \<and> getClasses (memoryPlatform [] (Rejected (Error ''EACCES''))) ''/p'' 3 = Some (Inr [])
   \<and> analyze_try Function crowdedProject ''/p'' 3
       = Some (Inl (RangeError ''Maximum call stack size exceeded''))
   \<and> analyze_try Class crowdedProject ''/p'' 3
       = Some (Inl (RangeError ''Maximum call stack size exceeded''))
   \<and> getFunctions crowdedProject ''/p'' 3 = Some (Inr [])
   \<and> getClasses crowdedProject ''/p'' 3 = Some (Inr [])"
proof -
  let ?w = "memoryPlatform [] (Rejected (Error ''EACCES''))"
  have g: "glob ?w ps ig \<noteq> Resolved files" for ps ig files
    by (simp add: memoryPlatform_def)
  have tf: "analyze_try Function crowdedProject ''/p'' 3
            = Some (Inl (RangeError ''Maximum call stack size exceeded''))"
    by code_simp
  have tc: "analyze_try Class crowdedProject ''/p'' 3
            = Some (Inl (RangeError ''Maximum call stack size exceeded''))"
    by code_simp
  from analyzers_always_return[of ?w "''/p''" 3] g
  have "getFunctions ?w ''/p'' 3 = Some (Inr []) \<and> getClasses ?w ''/p'' 3 = Some (Inr [])"
    by auto
  moreover from analyzers_always_return[of crowdedProject "''/p''" 3] tf tc
  have "getFunctions crowdedProject ''/p'' 3 = Some (Inr [])
        \<and> getClasses crowdedProject ''/p'' 3 = Some (Inr [])"
    by auto
  ultimately show ?thesis using g tf tc by simp
qed

end
